theory Spec2Isabelle
  imports Complex_Main
begin

section \<open>Diffusion models of the notebook \<^verbatim>\<open>docs/notebook/03-models.ipynb\<close>\<close>

text \<open>
  The notebook defines two classes with the same interface: an initializer taking a
  gradient table and keyword arguments, \<^verbatim>\<open>fit\<close> and \<^verbatim>\<open>predict\<close>. Both declare
  \<^verbatim>\<open>__slots__\<close> with one slot. A slot that was never assigned has no value, and reading
  it raises \<^verbatim>\<open>AttributeError\<close>: a slot is modelled as an option, \<open>None\<close> for "never
  assigned". Python exceptions are values of \<open>error\<close>, and a call that may raise returns
  \<open>error + 'a\<close> with \<open>Inl\<close> for the exception.

  Keyword arguments are association lists from names to values. The values passed to the
  models are arbitrary Python objects; the model is polymorphic in them.
\<close>

datatype error =
    ValueError string
  | AttributeError string
  | IndexError nat
  | UnknownModelError string

type_synonym 'k kwargs = "(string \<times> 'k) list"

subsection \<open>\<^verbatim>\<open>TrivialB0Model\<close>\<close>

text \<open>
  \<^verbatim>\<open>
  class TrivialB0Model:
      __slots__ = ("_S0",)

      def __init__(self, gtab, S0=None, **kwargs):
          if S0 is None:
              raise ValueError("S0 must be provided")
          self._S0 = S0

      def fit(self, *args, **kwargs):
          """Do nothing."""

      def predict(self, gradient, **kwargs):
          return self._S0
  \<close>
  The parameter \<open>S0\<close> is an option: \<open>None\<close> is Python's \<^verbatim>\<open>None\<close>, which is also what
  the parameter holds when the caller omits the keyword.
\<close>

record 'v TrivialB0Model =
  slot_S0 :: "'v option"

definition TrivialB0Model_init ::
  "'g \<Rightarrow> 'v option \<Rightarrow> 'k kwargs \<Rightarrow> error + 'v TrivialB0Model" where
  "TrivialB0Model_init gtab S0 kwargs =
     (case S0 of
        None \<Rightarrow> Inl (ValueError ''S0 must be provided'')
      | Some s \<Rightarrow> Inr \<lparr>slot_S0 = Some s\<rparr>)"

definition TrivialB0Model_fit ::
  "'v TrivialB0Model \<Rightarrow> 'a list \<Rightarrow> 'k kwargs \<Rightarrow> 'v TrivialB0Model" where
  "TrivialB0Model_fit self args kwargs = self"

definition TrivialB0Model_predict ::
  "'v TrivialB0Model \<Rightarrow> 'q \<Rightarrow> 'k kwargs \<Rightarrow> error + 'v" where
  "TrivialB0Model_predict self gradient kwargs =
     (case slot_S0 self of
        None \<Rightarrow> Inl (AttributeError ''_S0'')
      | Some s \<Rightarrow> Inr s)"

text \<open>A sequence of \<^verbatim>\<open>fit\<close> calls on one instance, each with its own arguments.\<close>

fun TrivialB0Model_fit_calls ::
  "'v TrivialB0Model \<Rightarrow> ('a list \<times> 'k kwargs) list \<Rightarrow> 'v TrivialB0Model" where
  "TrivialB0Model_fit_calls self [] = self"
| "TrivialB0Model_fit_calls self (c # cs) =
     TrivialB0Model_fit_calls (TrivialB0Model_fit self (fst c) (snd c)) cs"

subsection \<open>\<^verbatim>\<open>AverageDWModel\<close>\<close>

text \<open>
  \<^verbatim>\<open>
  class AverageDWModel:
      __slots__ = ("_data",)

      def __init__(self, gtab, **kwargs):
          return  # do nothing at initialization time

      def fit(self, data, **kwargs):
          """Calculate the average."""
          # self._data =  # Use numpy to calculate the average.

      def predict(self, gradient, **kwargs):
          """Return the average map."""
          return self._data
  \<close>
  The body of \<^verbatim>\<open>fit\<close> is a docstring and a comment: it assigns nothing.
\<close>

record 'v AverageDWModel =
  slot_data :: "'v option"

definition AverageDWModel_init :: "'g \<Rightarrow> 'k kwargs \<Rightarrow> 'v AverageDWModel" where
  "AverageDWModel_init gtab kwargs = \<lparr>slot_data = None\<rparr>"

definition AverageDWModel_fit ::
  "'v AverageDWModel \<Rightarrow> 'd \<Rightarrow> 'k kwargs \<Rightarrow> 'v AverageDWModel" where
  "AverageDWModel_fit self data kwargs = self"

definition AverageDWModel_predict ::
  "'v AverageDWModel \<Rightarrow> 'q \<Rightarrow> 'k kwargs \<Rightarrow> error + 'v" where
  "AverageDWModel_predict self gradient kwargs =
     (case slot_data self of
        None \<Rightarrow> Inl (AttributeError ''_data'')
      | Some d \<Rightarrow> Inr d)"

fun AverageDWModel_fit_calls ::
  "'v AverageDWModel \<Rightarrow> ('d \<times> 'k kwargs) list \<Rightarrow> 'v AverageDWModel" where
  "AverageDWModel_fit_calls self [] = self"
| "AverageDWModel_fit_calls self (c # cs) =
     AverageDWModel_fit_calls (AverageDWModel_fit self (fst c) (snd c)) cs"

subsection \<open>The mean the documentation of \<^verbatim>\<open>AverageDWModel\<close> describes\<close>

text \<open>
  This definition follows the words of the specification, not the code: the voxel-wise
  arithmetic mean of a 4D volume across its direction axis. A 3D volume is the list of
  its voxel values, and a 4D volume the list of its 3D volumes, one for each direction.
  Intensities are real numbers here; the rounding of floating point is not modelled.
\<close>

type_synonym volume = "real list"

definition mean_across_directions :: "volume list \<Rightarrow> volume" where
  "mean_across_directions vols =
     map (\<lambda>voxel. sum_list voxel / real (length voxel)) (transpose vols)"

section \<open>The dataset and the model factory of the \<^verbatim>\<open>eddymotion\<close> package\<close>

text \<open>
  The notebook imports \<^verbatim>\<open>DWI\<close> from \<^verbatim>\<open>eddymotion.dmri\<close> and \<^verbatim>\<open>ModelFactory\<close> from
  \<^verbatim>\<open>eddymotion.model\<close> and only calls them:
  \<^verbatim>\<open>
  data_train, data_test = dmri_dataset.logo_split(10)
  model.fit(data_train[0])
  predicted = model.predict(data_test[1])
  data_train, data_test = dmri_dataset.logo_split(88, with_b0=True)
  model = ModelFactory.init(gtab=data_train[1], model="DTI", S0=dmri_dataset.bzero)
  \<close>
  Their bodies are not in the notebooks. The definitions of this section follow the
  specification's description of them and say so one by one.
\<close>

subsection \<open>The dataset\<close>

text \<open>
  Modelled from the spec: the DWI dataset, whose class \<^verbatim>\<open>eddymotion.dmri.DWI\<close> is missing.
  The specification gives it a 4D signal array, an affine, a gradient table of
  (direction vector, b-value) pairs, one for each volume, and a derived b=0 reference that
  is computed lazily and cached. The 4D array is the list of its 3D volumes along the
  direction axis; the cache is an option, \<open>None\<close> until the reference has been computed.
  The field names \<open>affine\<close>, \<open>gradients\<close> and \<open>bzero\<close> are the attributes the notebook
  reads; \<open>data_array\<close> is the specification's "data array".
\<close>

type_synonym gradient = "(real \<times> real \<times> real) \<times> real"

record 'a DWI =
  data_array :: "volume list"
  affine :: 'a
  gradients :: "gradient list"
  bzero :: "volume option"

text \<open>
  Modelled from the spec: the invariant of the dataset, "number of directions in gradient
  table equals size of the 4th data axis".
\<close>

definition DWI_invariant :: "'a DWI \<Rightarrow> bool" where
  "DWI_invariant D = (length (gradients D) = length (data_array D))"

text \<open>
  Modelled from the spec: the volumes the b=0 reference of the missing class averages. "Must
  deterministically average all b=0-labeled volumes (b-value below a small epsilon
  threshold) to produce the constant reference map on demand", with "lazy caching of the
  derived b=0 average". The threshold is not given a value: it is the parameter \<open>eps\<close>.
\<close>

definition b0_volumes :: "real \<Rightarrow> 'a DWI \<Rightarrow> volume list" where
  "b0_volumes eps D =
     map fst (filter (\<lambda>vg. snd (snd vg) < eps) (zip (data_array D) (gradients D)))"

text \<open>
  Modelled from the spec: reading the b=0 reference of the missing class on demand. The
  cached reference is returned when there is one; otherwise it is computed as the average
  above and cached.
\<close>

definition get_bzero :: "real \<Rightarrow> 'a DWI \<Rightarrow> 'a DWI \<times> volume" where
  "get_bzero eps D =
     (case bzero D of
        Some r \<Rightarrow> (D, r)
      | None \<Rightarrow>
          (let r = mean_across_directions (b0_volumes eps D)
           in (D\<lparr>bzero := Some r\<rparr>, r)))"

text \<open>
  Modelled from the spec: the gradient entry of a b=0 volume, "a b-value of (near) zero
  marks a b=0 volume"; the direction of the entry is not specified and is the zero vector
  here.
\<close>

definition b0_gradient :: gradient where
  "b0_gradient = ((0, 0, 0), 0)"

type_synonym training = "volume list \<times> gradient list"
type_synonym held_out = "volume \<times> gradient"

text \<open>
  Modelled from the spec: \<^verbatim>\<open>logo_split(held_out_index, with_b0=false)\<close>, the method of the
  missing class. "Returns (training_data, held_out_data). Training data excludes the
  selected direction's volume; held-out data is exactly that one volume plus its gradient
  entry. Fails with an IndexError-kind condition if the index is out of range", "before
  any partitioning is attempted"; a valid index is one "in [0, N)" for a dataset with N
  directions, and the training data has "exactly N-1 (or N, depending on with_b0)
  directions". With \<open>with_b0\<close> the training data therefore has one volume more than the
  other directions: the model adds the b=0 reference and its gradient entry, in front
  (the specification fixes the count, not the position).

  As the notebook uses the result, each part is a pair of data and gradients. The method
  reads the dataset and may fill its cache, so the model returns the dataset next to the
  result, also when the call fails. The index counts the directions of the dataset, as
  in "for every valid i in [0, N)" and "the i-th entry of the original gradient table".
  An index is a natural number: negative indices are not modelled.
\<close>

definition logo_split ::
  "real \<Rightarrow> 'a DWI \<Rightarrow> nat \<Rightarrow> bool \<Rightarrow> 'a DWI \<times> (error + training \<times> held_out)" where
  "logo_split eps D index with_b0 =
     (if length (data_array D) \<le> index then (D, Inl (IndexError index))
      else
        (let held = (data_array D ! index, gradients D ! index);
             train_data = take index (data_array D) @ drop (Suc index) (data_array D);
             train_gradients = take index (gradients D) @ drop (Suc index) (gradients D)
         in if with_b0
            then (case get_bzero eps D of
                    (D', r) \<Rightarrow>
                      (D', Inr ((r # train_data, b0_gradient # train_gradients), held)))
            else (D, Inr ((train_data, train_gradients), held))))"

text \<open>
  Modelled from the spec: the dataset of the end-to-end scenario of the testable
  properties, "a dataset with 4 directions (one b=0, three diffusion-weighted)", here with
  two voxels in each volume.
\<close>

definition scenario_dataset :: "unit DWI" where
  "scenario_dataset =
     \<lparr>data_array = [[10, 20], [1, 2], [3, 4], [5, 9]],
      affine = (),
      gradients = [((0, 0, 0), 0), ((1, 0, 0), 1000), ((0, 1, 0), 1000), ((0, 0, 1), 1000)],
      bzero = None\<rparr>"

subsection \<open>The model factory\<close>

text \<open>
  Modelled from the spec: the comparison of model names, part of the missing
  \<^verbatim>\<open>eddymotion.model.ModelFactory\<close>. Names are "case-insensitive": two names are the same
  when they are equal after lowering the ASCII letters of both.
\<close>

definition lower_char :: "char \<Rightarrow> char" where
  "lower_char c =
     (let n = (of_char c :: nat)
      in if 65 \<le> n \<and> n \<le> 90 then char_of (n + 32) else c)"

text \<open>Modelled from the spec: the lowering of a whole name, for the same comparison.\<close>

definition lower :: "string \<Rightarrow> string" where
  "lower s = map lower_char s"

type_synonym ('g, 'p, 'm) constructor = "'g \<Rightarrow> 'p \<Rightarrow> error + 'm"

text \<open>
  Modelled from the spec: \<^verbatim>\<open>ModelFactory.init(gradient_table, model_name, **params)\<close>, whose
  class \<^verbatim>\<open>eddymotion.model.ModelFactory\<close> is missing. It "maps a model name
  (case-insensitive, e.g. "DTI", "DKI", "trivial") to the corresponding Model variant,
  constructs it with the gradient table and forwarded parameters, and returns it. Fails
  with an UnknownModelError-kind condition for unrecognized names." The specification
  names the registered models by example only, so the registry (names and constructors)
  is a parameter.
\<close>

definition ModelFactory_init ::
  "(string \<times> ('g, 'p, 'm) constructor) list \<Rightarrow> 'g \<Rightarrow> string \<Rightarrow> 'p \<Rightarrow> error + 'm" where
  "ModelFactory_init registry gtab model params =
     (case find (\<lambda>entry. lower (fst entry) = lower model) registry of
        None \<Rightarrow> Inl (UnknownModelError model)
      | Some entry \<Rightarrow> snd entry gtab params)"

section \<open>Properties of the notebook's models\<close>

lemma TrivialB0Model_fit_calls_same: "TrivialB0Model_fit_calls self calls = self"
  by (induction calls arbitrary: self) (simp_all add: TrivialB0Model_fit_def)

lemma AverageDWModel_fit_calls_same: "AverageDWModel_fit_calls self calls = self"
  by (induction calls arbitrary: self) (simp_all add: AverageDWModel_fit_def)

lemma TrivialB0Model_init_Some:
  "TrivialB0Model_init gtab (Some s) kwargs = Inr m \<Longrightarrow> slot_S0 m = Some s"
  by (auto simp: TrivialB0Model_init_def)

text \<open>
  C1. After \<^verbatim>\<open>fit(training_data)\<close> the averaging model is to return, for every query
  gradient, the voxel-wise mean of the training data across the direction axis. The code
  does not: on a training volume of two directions with two voxels each, whose mean is
  the volume \<open>[3, 5]\<close>, \<^verbatim>\<open>fit\<close> followed by \<^verbatim>\<open>predict\<close> raises \<^verbatim>\<open>AttributeError\<close> for
  the slot \<^verbatim>\<open>_data\<close>.
\<close>

theorem AverageDWModel_fit_predict_raises:
  "AverageDWModel_predict
     (AverageDWModel_fit
        (AverageDWModel_init
           [((1::real, 0::real, 0::real), 1000::real), ((0, 1, 0), 1000)] ([] :: unit kwargs))
        [[1, 3], [5, 7 :: real]] ([] :: unit kwargs))
     ((0::real, 0::real, 1::real), 1000::real) ([] :: unit kwargs)
   = (Inl (AttributeError ''_data'') :: error + volume)
   \<and> mean_across_directions [[1, 3], [5, 7]] = [3, 5]"
  by (simp add: AverageDWModel_predict_def AverageDWModel_fit_def AverageDWModel_init_def
      mean_across_directions_def)

text \<open>
  C2. For an instance of the constant model constructed with a reference map \<open>s\<close>,
  \<^verbatim>\<open>fit\<close> leaves the instance as it is, and after any sequence of \<^verbatim>\<open>fit\<close> calls, with any
  arguments, \<^verbatim>\<open>predict\<close> returns \<open>s\<close> for every gradient.
\<close>

theorem TrivialB0Model_predict_constant:
  assumes "TrivialB0Model_init gtab (Some s) kwargs = Inr m"
  shows "TrivialB0Model_fit m args kwf = m
       \<and> TrivialB0Model_predict (TrivialB0Model_fit_calls m calls) g kw = Inr s"
  using TrivialB0Model_init_Some [OF assms]
  by (simp add: TrivialB0Model_fit_calls_same TrivialB0Model_fit_def TrivialB0Model_predict_def)

theorem TrivialB0Model_predict_constant_witness:
  "TrivialB0Model_init [((1::real, 0::real, 0::real), 1000::real)] (Some [4, 2 :: real])
       ([] :: unit kwargs)
     = Inr \<lparr>slot_S0 = Some [4, 2]\<rparr>
   \<and> TrivialB0Model_fit \<lparr>slot_S0 = Some [4, 2 :: real]\<rparr> [[[1, 3], [5, 7 :: real]]]
       ([] :: unit kwargs)
     = \<lparr>slot_S0 = Some [4, 2]\<rparr>
   \<and> TrivialB0Model_predict
       (TrivialB0Model_fit_calls \<lparr>slot_S0 = Some [4, 2 :: real]\<rparr>
          [([[[1, 3], [5, 7 :: real]]], ([] :: unit kwargs)), ([], [(''n_jobs'', ())])])
       ((0::real, 0::real, 1::real), 1000::real) ([] :: unit kwargs) = Inr [4, 2]"
proof -
  have h: "TrivialB0Model_init [((1::real, 0::real, 0::real), 1000::real)]
      (Some [4, 2 :: real]) ([] :: unit kwargs) = Inr \<lparr>slot_S0 = Some [4, 2]\<rparr>"
    by (simp add: TrivialB0Model_init_def)
  note TrivialB0Model_predict_constant [OF h,
      where calls = "[([[[1, 3], [5, 7 :: real]]], ([] :: unit kwargs)), ([], [(''n_jobs'', ())])]"
      and g = "((0::real, 0::real, 1::real), 1000::real)" and kw = "[] :: unit kwargs"
      and args = "[[[1, 3], [5, 7 :: real]]]" and kwf = "[] :: unit kwargs"]
  with h show ?thesis by blast
qed

text \<open>
  C3. Constructing the constant model without \<^verbatim>\<open>S0\<close> raises \<^verbatim>\<open>ValueError\<close> in the
  initializer, so that no instance exists that could be fitted; with an \<^verbatim>\<open>S0\<close> the
  construction succeeds and stores it. (An \<^verbatim>\<open>S0\<close> that is Python's \<^verbatim>\<open>None\<close> counts as
  omitted: the initializer cannot tell the two apart.)
\<close>

theorem TrivialB0Model_init_requires_S0:
  "TrivialB0Model_init gtab None kwargs = Inl (ValueError ''S0 must be provided'')
   \<and> TrivialB0Model_init gtab' (Some s) kwargs' = Inr \<lparr>slot_S0 = Some s\<rparr>"
  by (simp add: TrivialB0Model_init_def)

text \<open>
  C7. The model of the notebook that needs fitting is the averaging model: its
  initializer stores nothing. Calling \<^verbatim>\<open>predict\<close> on a new instance, before any \<^verbatim>\<open>fit\<close>,
  fails instead of returning data. The failure is the \<^verbatim>\<open>AttributeError\<close> of reading the
  unassigned slot, the run-time check of the precondition.
\<close>

theorem AverageDWModel_predict_before_fit:
  "AverageDWModel_predict (AverageDWModel_init gtab kwargs) g kw
     = Inl (AttributeError ''_data'')"
  by (simp add: AverageDWModel_predict_def AverageDWModel_init_def)

text \<open>
  C9. The result of \<^verbatim>\<open>predict\<close> of the constant model depends on the \<^verbatim>\<open>S0\<close> of the
  construction only: two instances constructed with the same \<^verbatim>\<open>S0\<close>, whatever their
  gradient tables and other keyword arguments, and whatever \<^verbatim>\<open>fit\<close> calls each has seen,
  return the same result for every query.
\<close>

theorem TrivialB0Model_predict_depends_on_S0_only:
  assumes "TrivialB0Model_init gtab1 (Some s) kwargs1 = Inr m1"
      and "TrivialB0Model_init gtab2 (Some s) kwargs2 = Inr m2"
  shows "TrivialB0Model_predict (TrivialB0Model_fit_calls m1 calls1) g1 kw1
       = TrivialB0Model_predict (TrivialB0Model_fit_calls m2 calls2) g2 kw2"
  using TrivialB0Model_init_Some [OF assms(1)] TrivialB0Model_init_Some [OF assms(2)]
  by (simp add: TrivialB0Model_fit_calls_same TrivialB0Model_predict_def)

theorem TrivialB0Model_predict_depends_on_S0_only_witness:
  "TrivialB0Model_init [((1::real, 0::real, 0::real), 1000::real)] (Some [4, 2 :: real])
       ([] :: nat kwargs)
     = Inr \<lparr>slot_S0 = Some [4, 2]\<rparr>
   \<and> TrivialB0Model_init [((0::real, 1::real, 0::real), 2000::real), ((0, 0, 1), 2000)]
       (Some [4, 2 :: real]) [(''n_jobs'', 4 :: nat)]
     = Inr \<lparr>slot_S0 = Some [4, 2]\<rparr>
   \<and> TrivialB0Model_predict
       (TrivialB0Model_fit_calls \<lparr>slot_S0 = Some [4, 2 :: real]\<rparr>
          [([[[1, 3], [5, 7 :: real]]], ([] :: nat kwargs))])
       ((0::real, 0::real, 1::real), 1000::real) ([] :: nat kwargs)
     = TrivialB0Model_predict
       (TrivialB0Model_fit_calls \<lparr>slot_S0 = Some [4, 2 :: real]\<rparr>
          [([], [(''n_jobs'', 2 :: nat)]), ([[[8, 8 :: real]]], [])])
       ((1::real, 0::real, 0::real), 3000::real) [(''step'', 1 :: nat)]"
proof -
  have h1: "TrivialB0Model_init [((1::real, 0::real, 0::real), 1000::real)]
      (Some [4, 2 :: real]) ([] :: nat kwargs) = Inr \<lparr>slot_S0 = Some [4, 2]\<rparr>"
    by (simp add: TrivialB0Model_init_def)
  have h2: "TrivialB0Model_init [((0::real, 1::real, 0::real), 2000::real), ((0, 0, 1), 2000)]
      (Some [4, 2 :: real]) [(''n_jobs'', 4 :: nat)] = Inr \<lparr>slot_S0 = Some [4, 2]\<rparr>"
    by (simp add: TrivialB0Model_init_def)
  note TrivialB0Model_predict_depends_on_S0_only [OF h1 h2,
      where ?calls1.0 = "[([[[1, 3], [5, 7 :: real]]], ([] :: nat kwargs))]"
      and ?g1.0 = "((0::real, 0::real, 1::real), 1000::real)" and ?kw1.0 = "[] :: nat kwargs"
      and ?calls2.0 = "[([], [(''n_jobs'', 2 :: nat)]), ([[[8, 8 :: real]]], [])]"
      and ?g2.0 = "((1::real, 0::real, 0::real), 3000::real)"
      and ?kw2.0 = "[(''step'', 1 :: nat)]"]
  with h1 h2 show ?thesis by blast
qed

text \<open>
  C10. \<^verbatim>\<open>fit\<close> of the averaging model never assigns the slot \<^verbatim>\<open>_data\<close>: it leaves the
  slot of every instance as it was. So for every instance the initializer produces and
  every sequence of \<^verbatim>\<open>fit\<close> calls on it, \<^verbatim>\<open>predict\<close> raises \<^verbatim>\<open>AttributeError\<close> and
  returns no value.
\<close>

theorem AverageDWModel_predict_never_returns:
  "slot_data (AverageDWModel_fit self data kwf) = slot_data self
   \<and> AverageDWModel_predict
        (AverageDWModel_fit_calls (AverageDWModel_init gtab kwargs) calls) g kw
      = Inl (AttributeError ''_data'')"
  by (simp add: AverageDWModel_fit_calls_same AverageDWModel_fit_def
      AverageDWModel_predict_def AverageDWModel_init_def)

section \<open>Properties of the dataset split and of the model factory\<close>

lemma logo_split_without_b0:
  "index < length (data_array D) \<Longrightarrow>
   logo_split eps D index False =
     (D, Inr ((take index (data_array D) @ drop (Suc index) (data_array D),
               take index (gradients D) @ drop (Suc index) (gradients D)),
              (data_array D ! index, gradients D ! index)))"
  by (simp add: logo_split_def)

lemma logo_split_with_b0:
  "index < length (data_array D) \<Longrightarrow>
   logo_split eps D index True =
     (fst (get_bzero eps D),
      Inr ((snd (get_bzero eps D) # take index (data_array D) @ drop (Suc index) (data_array D),
            b0_gradient # take index (gradients D) @ drop (Suc index) (gradients D)),
           (data_array D ! index, gradients D ! index)))"
  by (simp add: logo_split_def split: prod.splits)

lemma logo_split_out_of_range:
  "length (data_array D) \<le> index \<Longrightarrow>
   logo_split eps D index with_b0 = (D, Inl (IndexError index))"
  by (simp add: logo_split_def)

lemma get_bzero_frame:
  "fst (get_bzero eps D) = D\<lparr>bzero := Some (snd (get_bzero eps D))\<rparr>"
  by (simp add: get_bzero_def Let_def split: option.splits)

lemma DWI_cache_same: "\<exists>cache. D = D\<lparr>bzero := cache\<rparr>"
  by (rule exI [of _ "bzero D"]) simp

lemma remove_nth_reinsert:
  "index < length xs \<Longrightarrow>
   take index (take index xs @ drop (Suc index) xs) @ xs ! index
     # drop index (take index xs @ drop (Suc index) xs) = xs"
  by (simp add: min_def id_take_nth_drop [symmetric])

lemma scenario_dataset_invariant: "DWI_invariant scenario_dataset"
  by (simp add: DWI_invariant_def scenario_dataset_def)

lemma scenario_dataset_length: "length (data_array scenario_dataset) = 4"
  by (simp add: scenario_dataset_def)

text \<open>
  C4. For a dataset with N directions that satisfies its invariant and an index below N,
  the split returns a result. The training part has N-1 volumes, or N with \<open>with_b0\<close>,
  and as many gradient entries; the held-out part is one direction, the volume at the
  index with its gradient entry; and putting the held-out volume back at the index among
  the training volumes taken from the dataset gives the data array again, so the training
  part is the dataset without that one direction.
\<close>

theorem logo_split_partition:
  assumes "DWI_invariant D" and "index < length (data_array D)"
  shows "\<exists>D' train_data train_gradients held.
           logo_split eps D index with_b0 = (D', Inr ((train_data, train_gradients), held))
         \<and> length train_data = (if with_b0 then length (data_array D) else length (data_array D) - 1)
         \<and> length train_gradients = length train_data
         \<and> held = (data_array D ! index, gradients D ! index)
         \<and> (let rest = (if with_b0 then tl train_data else train_data)
            in take index rest @ fst held # drop index rest = data_array D)"
proof (cases with_b0)
  case True
  from assms have g: "index < length (gradients D)" by (simp add: DWI_invariant_def)
  show ?thesis
    using True assms(2) g remove_nth_reinsert [OF assms(2)] assms(1)
    by (simp add: logo_split_with_b0 DWI_invariant_def del: take_append drop_append)
next
  case False
  from assms have g: "index < length (gradients D)" by (simp add: DWI_invariant_def)
  show ?thesis
    using False assms(2) g remove_nth_reinsert [OF assms(2)] assms(1)
    by (simp add: logo_split_without_b0 DWI_invariant_def del: take_append drop_append)
qed

theorem logo_split_partition_witness:
  "DWI_invariant scenario_dataset \<and> 1 < length (data_array scenario_dataset)
   \<and> (\<exists>D' train_data train_gradients held.
         logo_split 50 scenario_dataset 1 False
           = (D', Inr ((train_data, train_gradients), held))
       \<and> length train_data = 3
       \<and> length train_gradients = 3
       \<and> held = ([1, 2], ((1, 0, 0), 1000))
       \<and> take 1 train_data @ fst held # drop 1 train_data
           = [[10, 20], [1, 2], [3, 4], [5, 9]])"
proof -
  have h1: "DWI_invariant scenario_dataset"
    by (rule scenario_dataset_invariant)
  have h2: "1 < length (data_array scenario_dataset)"
    by (simp add: scenario_dataset_length)
  from logo_split_partition [OF h1 h2, of 50 False]
  obtain D' train_data train_gradients held where
    res: "logo_split 50 scenario_dataset 1 False
              = (D', Inr ((train_data, train_gradients), held))"
    and len: "length train_data = length (data_array scenario_dataset) - 1"
    and len_g: "length train_gradients = length train_data"
    and h_eq: "held = (data_array scenario_dataset ! 1, gradients scenario_dataset ! 1)"
    and reins: "take 1 train_data @ fst held # drop 1 train_data = data_array scenario_dataset"
    by auto
  from len have n: "length train_data = 3"
    by (simp add: scenario_dataset_length)
  with len_g have n_g: "length train_gradients = 3"
    by simp
  from h_eq have h_val: "held = ([1, 2], ((1, 0, 0), 1000))"
    by (simp add: scenario_dataset_def)
  from reins have reins_val: "take 1 train_data @ fst held # drop 1 train_data
      = [[10, 20], [1, 2], [3, 4], [5, 9]]"
    by (simp add: scenario_dataset_def)
  from h1 h2 res n n_g h_val reins_val show ?thesis
    by blast
qed

text \<open>
  C5. When the index is not below the number of directions, the split fails with
  \<^verbatim>\<open>IndexError\<close>, whatever \<open>with_b0\<close> is, and the dataset it leaves is the dataset it
  was given: nothing was partitioned and nothing was cached.
\<close>

theorem logo_split_index_error:
  assumes "length (data_array D) \<le> index"
  shows "logo_split eps D index with_b0 = (D, Inl (IndexError index))"
  using assms by (simp add: logo_split_def)

theorem logo_split_index_error_witness:
  "length (data_array scenario_dataset) \<le> 4
   \<and> logo_split 50 scenario_dataset 4 True = (scenario_dataset, Inl (IndexError 4))"
proof -
  have h: "length (data_array scenario_dataset) \<le> 4"
    by (simp add: scenario_dataset_length)
  from logo_split_index_error [OF h, of 50 True] h show ?thesis by blast
qed

text \<open>
  C8. A split leaves the data array of the dataset as it was, for every dataset, index
  and flag; the dataset after the split differs from the one before in the cached b=0
  reference at most.
\<close>

theorem logo_split_keeps_data:
  "data_array (fst (logo_split eps D index with_b0)) = data_array D
   \<and> (\<exists>cache. fst (logo_split eps D index with_b0) = D\<lparr>bzero := cache\<rparr>)"
proof (cases "index < length (data_array D)")
  case False
  then have "fst (logo_split eps D index with_b0) = D"
    by (simp add: logo_split_out_of_range)
  then show ?thesis using DWI_cache_same [of D] by simp
next
  case valid: True
  show ?thesis
  proof (cases with_b0)
    case True
    with valid have "fst (logo_split eps D index with_b0)
        = D\<lparr>bzero := Some (snd (get_bzero eps D))\<rparr>"
      using get_bzero_frame [of eps D] by (simp add: logo_split_with_b0)
    then show ?thesis by auto
  next
    case False
    with valid have "fst (logo_split eps D index with_b0) = D"
      by (simp add: logo_split_without_b0)
    then show ?thesis using DWI_cache_same [of D] by simp
  qed
qed

text \<open>
  C6. When no registered name equals the requested name up to case, the factory fails
  with \<^verbatim>\<open>UnknownModelError\<close> for that name and returns no model, so no default takes
  the place of the unknown one. With the names "DTI", "DKI" and "trivial" registered,
  "NOT_A_MODEL" is such a name.
\<close>

theorem ModelFactory_init_unknown:
  assumes "lower model \<notin> set (map (\<lambda>entry. lower (fst entry)) registry)"
  shows "ModelFactory_init registry gtab model params = Inl (UnknownModelError model)
       \<and> (\<forall>m. ModelFactory_init registry gtab model params \<noteq> Inr m)"
proof -
  from assms have "find (\<lambda>entry. lower (fst entry) = lower model) registry = None"
    by (force simp: find_None_iff image_iff)
  then show ?thesis by (simp add: ModelFactory_init_def)
qed

theorem ModelFactory_init_unknown_witness:
  "lower ''NOT_A_MODEL''
     \<notin> set (map (\<lambda>entry. lower (fst entry))
         [(''DTI'', \<lambda>g p. Inr ''DTIModel''), (''DKI'', \<lambda>g p. Inr ''DKIModel''),
          (''trivial'', \<lambda>g p. Inr ''TrivialB0Model'')])
   \<and> ModelFactory_init
       [(''DTI'', \<lambda>g p. Inr ''DTIModel''), (''DKI'', \<lambda>g p. Inr ''DKIModel''),
        (''trivial'', \<lambda>g p. Inr ''TrivialB0Model'')]
       [((1::real, 0::real, 0::real), 1000::real)] ''NOT_A_MODEL'' ([] :: unit kwargs)
     = (Inl (UnknownModelError ''NOT_A_MODEL'') :: error + string)"
proof -
  have h: "lower ''NOT_A_MODEL''
     \<notin> set (map (\<lambda>entry. lower (fst entry))
         [(''DTI'', \<lambda>g p. Inr ''DTIModel''), (''DKI'', \<lambda>g p. Inr ''DKIModel''),
          (''trivial'', \<lambda>g p. Inr ''TrivialB0Model'')])"
    by (simp add: lower_def lower_char_def char_of_eq_iff)
  from ModelFactory_init_unknown [OF h,
      where gtab = "[((1::real, 0::real, 0::real), 1000::real)]" and params = "[] :: unit kwargs"] h
  show ?thesis by blast
qed

end
